theory Spec2Isabelle
  imports Complex_Main
begin

section \<open>Hartree-Fock SCF drivers: restricted loop and unrestricted loop with DIIS\<close>

text \<open>
  The development embeds the two self-consistent-field loops of the repository:
  the unrestricted Hartree-Fock notebook with DIIS (\<^verbatim>\<open>02_SCF/advanced/uhf_diis_psi4.ipynb\<close>)
  and the restricted loop that precedes the MP2 exercise. Floating-point numbers are
  idealised as \<^typ>\<open>real\<close>; a numpy array of rank two is a list of rows, a Python list
  is a list. The arrays handed over by the integral packages have the shape the
  notebooks expect (\<open>num_ao \<times> num_ao\<close>, occupied counts at most \<open>num_ao\<close>), so
  every indexed read of the loops is in range; shape errors of numpy are not modelled.
  Printing and timing are left out: they do not feed back into the loop variables.
\<close>

subsection \<open>numpy arrays\<close>

type_synonym vector = "real list"
type_synonym matrix = "real list list"

text \<open>\<^verbatim>\<open>np.zeros_like(M)\<close>\<close>

definition zeros_like :: "matrix \<Rightarrow> matrix" where
  "zeros_like M = map (map (\<lambda>_. 0)) M"

text \<open>Elementwise \<^verbatim>\<open>X + Y\<close>, \<^verbatim>\<open>X - Y\<close>, \<^verbatim>\<open>np.multiply(X, Y)\<close>, \<^verbatim>\<open>c * X\<close> and \<^verbatim>\<open>X**2\<close>.\<close>

definition madd :: "matrix \<Rightarrow> matrix \<Rightarrow> matrix" where
  "madd X Y = map2 (map2 (+)) X Y"

definition msub :: "matrix \<Rightarrow> matrix \<Rightarrow> matrix" where
  "msub X Y = map2 (map2 (-)) X Y"

definition multiply :: "matrix \<Rightarrow> matrix \<Rightarrow> matrix" where
  "multiply X Y = map2 (map2 (*)) X Y"

definition scale :: "real \<Rightarrow> matrix \<Rightarrow> matrix" where
  "scale c X = map (map (\<lambda>x. c * x)) X"

definition square :: "matrix \<Rightarrow> matrix" where
  "square X = map (map (\<lambda>x. x * x)) X"

text \<open>\<^verbatim>\<open>np.sum(X)\<close> over all entries.\<close>

definition np_sum :: "matrix \<Rightarrow> real" where
  "np_sum X = sum_list (map sum_list X)"

text \<open>\<^verbatim>\<open>np.einsum('ij,ij->', X, Y)\<close>: the sum of the elementwise products.\<close>

definition einsum :: "matrix \<Rightarrow> matrix \<Rightarrow> real" where
  "einsum X Y = np_sum (multiply X Y)"

text \<open>The column count of an array, its transpose \<^verbatim>\<open>X.T\<close> and the product \<^verbatim>\<open>X @ Y\<close>.\<close>

definition ncols :: "matrix \<Rightarrow> nat" where
  "ncols X = (case X of [] \<Rightarrow> 0 | r # _ \<Rightarrow> length r)"

definition mT :: "matrix \<Rightarrow> matrix" where
  "mT X = map (\<lambda>j. map (\<lambda>r. r ! j) X) [0..<ncols X]"

definition matmul :: "matrix \<Rightarrow> matrix \<Rightarrow> matrix" where
  "matmul X Y = map (\<lambda>r. map (\<lambda>c. sum_list (map2 (*) r c)) (mT Y)) X"

text \<open>An array of shape \<open>n \<times> n\<close>, and symmetry of its entries.\<close>

definition is_mat :: "nat \<Rightarrow> matrix \<Rightarrow> bool" where
  "is_mat n X \<longleftrightarrow> length X = n \<and> list_all (\<lambda>r. length r = n) X"

definition symmetric :: "nat \<Rightarrow> matrix \<Rightarrow> bool" where
  "symmetric n X \<longleftrightarrow> (\<forall>i<n. \<forall>j<n. X ! i ! j = X ! j ! i)"

subsection \<open>The library routines the notebooks call\<close>

text \<open>
  \<^verbatim>\<open>scipy.linalg.eigh(F, S)\<close>, \<^verbatim>\<open>numpy.linalg.solve(B, right)\<close> and
  \<^verbatim>\<open>scipy.linalg.fractional_matrix_power(S, p)\<close> are not code of the repository; the
  loops take them as parameters. \<open>solve\<close> returns \<open>None\<close> where numpy raises
  \<^verbatim>\<open>LinAlgError\<close> (a singular matrix). \<open>eigh\<close> and \<open>fractional_matrix_power\<close> are
  taken to return: the overlap matrix they are given is symmetric and positive definite
  by the input contract.
\<close>

record linalg =
  eigh :: "matrix \<Rightarrow> matrix \<Rightarrow> vector \<times> matrix"
  solve :: "matrix \<Rightarrow> vector \<Rightarrow> vector option"
  fractional_matrix_power :: "matrix \<Rightarrow> real \<Rightarrow> matrix"

datatype error = LinAlgError | IndexError

subsection \<open>Density builder and the G matrix\<close>

text \<open>
  \<^verbatim>\<open>
  D = np.zeros((num_ao, num_ao))
  for i in range(num_ao):
      for j in range(num_ao):
          for k in range(num_elec):
              D[i, j] += C[i, k] * C[j, k]
  \<close>
\<close>

definition form_D :: "nat \<Rightarrow> nat \<Rightarrow> matrix \<Rightarrow> matrix" where
  "form_D n num_elec C =
     map (\<lambda>i. map (\<lambda>j. fold (\<lambda>k acc. acc + C ! i ! k * C ! j ! k) [0..<num_elec] 0)
                [0..<n]) [0..<n]"

text \<open>
  \<^verbatim>\<open>
  G = np.zeros((num_ao, num_ao))
  for i in range(num_ao):
      for j in range(num_ao):
          for k in range(num_ao):
              for l in range(num_ao):
                  G[i, j] += D[k, l] * ((2.0*(eri[i, j, k, l])) - (eri[i, k, j, l]))
  \<close>
  The unrestricted notebook runs this accumulation twice in one loop nest, once with
  \<open>D_alpha\<close> into \<open>G_alpha\<close> and once with \<open>D_beta\<close> into \<open>G_beta\<close>; the restricted
  notebook runs it once, reading the integrals through \<open>idx4\<close>. The lookup is the
  parameter \<open>g\<close>.
\<close>

definition form_G :: "nat \<Rightarrow> matrix \<Rightarrow> (nat \<Rightarrow> nat \<Rightarrow> nat \<Rightarrow> nat \<Rightarrow> real) \<Rightarrow> matrix" where
  "form_G n D g =
     map (\<lambda>i. map (\<lambda>j.
            fold (\<lambda>k. fold (\<lambda>l acc. acc + D ! k ! l * (2 * g i j k l - g i k j l)) [0..<n])
                 [0..<n] 0)
          [0..<n]) [0..<n]"

subsection \<open>Compressed two-electron integrals of the restricted notebook\<close>

text \<open>
  \<open>idx2\<close> memoises its result in a dictionary; the cached value is the computed one,
  so the function is the closed form. \<open>i*(i+1)\<close> is even, hence \<^verbatim>\<open>int(i*(i+1)/2+j)\<close>
  is exact.
\<close>

definition idx2 :: "nat \<Rightarrow> nat \<Rightarrow> nat" where
  "idx2 i j = (if i \<ge> j then i * (i + 1) div 2 + j else j * (j + 1) div 2 + i)"

definition idx4 :: "nat \<Rightarrow> nat \<Rightarrow> nat \<Rightarrow> nat \<Rightarrow> nat" where
  "idx4 i j k l = idx2 (idx2 i j) (idx2 k l)"

subsection \<open>DIIS extrapolation\<close>

text \<open>
  \<^verbatim>\<open>
  def diis(F_list, diis_res):
      dim_B = len(F_list) + 1
      B = np.empty((dim_B, dim_B))
      B[-1, :] = -1
      B[:, -1] = -1
      B[-1, -1] = 0
      for i in range(len(F_list)):
          for j in range(len(F_list)):
              B[i, j] = np.einsum('ij,ij->', diis_res[i], diis_res[j])
      right = np.zeros(dim_B)
      right[-1] = -1
      cn = np.linalg.solve(B, right)
      F_diis = np.zeros_like(F_list[0])
      for x in range(cn.shape[0] - 1):
          F_diis += cn[x] * F_list[x]
      return F_diis
  \<close>
  \<open>diis_res[i]\<close> beyond the end of a residual list shorter than \<open>F_list\<close>,
  \<open>F_list[0]\<close> of an empty list and \<open>F_list[x]\<close> beyond the end of the list raise
  \<^verbatim>\<open>IndexError\<close>.
\<close>

definition pulay_B :: "matrix list \<Rightarrow> matrix list \<Rightarrow> matrix" where
  "pulay_B F_list diis_res =
     (let m = length F_list in
      map (\<lambda>i. map (\<lambda>j. if i < m \<and> j < m then einsum (diis_res ! i) (diis_res ! j)
                         else if i = m \<and> j = m then 0 else - 1)
                [0..<m + 1]) [0..<m + 1])"

definition pulay_right :: "matrix list \<Rightarrow> vector" where
  "pulay_right F_list = replicate (length F_list) 0 @ [- 1]"

definition diis :: "linalg \<Rightarrow> matrix list \<Rightarrow> matrix list \<Rightarrow> error + matrix" where
  "diis lib F_list diis_res =
     (if length diis_res < length F_list then Inl IndexError
      else
        (case solve lib (pulay_B F_list diis_res) (pulay_right F_list) of
           None \<Rightarrow> Inl LinAlgError
         | Some cn \<Rightarrow>
             (case F_list of
                [] \<Rightarrow> Inl IndexError
              | F0 # _ \<Rightarrow>
                  if length cn - 1 \<le> length F_list then
                    Inr (fold (\<lambda>x F_diis. madd F_diis (scale (cn ! x) (F_list ! x)))
                              [0..<length cn - 1] (zeros_like F0))
                  else Inl IndexError)))"

subsection \<open>Inputs and loop variables\<close>

text \<open>
  The one-letter globals of the notebooks carry a suffix here: \<open>S_mat\<close>, \<open>H_mat\<close>,
  \<open>A_mat\<close> are \<open>S\<close>, \<open>H\<close>, \<open>A\<close>; in the restricted loop \<open>D_mat\<close>, \<open>F_mat\<close>, \<open>C_mat\<close>
  are \<open>D\<close>, \<open>F\<close>, \<open>C\<close>. The four-index array \<open>eri\<close> of the unrestricted notebook is only
  ever read at an index, so it is a lookup function; the restricted notebook's \<open>eri\<close>
  is the one-dimensional eightfold-compressed array (\<open>eri_s8\<close>).
\<close>

record scf_input =
  num_ao :: nat
  num_elec_alpha :: nat
  num_elec_beta :: nat
  E_nuc :: real
  S_mat :: matrix
  H_mat :: matrix
  iteration_max :: nat
  convergence_E :: real
  convergence_DM :: real

record uhf_input = scf_input +
  eri :: "nat \<Rightarrow> nat \<Rightarrow> nat \<Rightarrow> nat \<Rightarrow> real"

record rhf_input = scf_input +
  eri_s8 :: "real list"

record loop_vars =
  iteration_num :: nat
  iteration_E_diff :: real
  iteration_rmsc_dm :: real
  converged :: bool
  exceeded_iterations :: bool

text \<open>
  \<open>F_alpha\<close>, \<open>F_beta\<close>, \<open>C_alpha\<close>, \<open>C_beta\<close> are bound by the first iteration only; the
  initial state holds empty arrays for them, and every iteration assigns them before
  reading them. The orbital energies that \<open>eigh\<close> returns beside the coefficients are
  not read by the loops and are not kept.
\<close>

record uhf_state = loop_vars +
  E_total :: real
  E_elec :: real
  A_mat :: matrix
  D_alpha :: matrix
  D_beta :: matrix
  D_total :: matrix
  F_alpha :: matrix
  F_beta :: matrix
  C_alpha :: matrix
  C_beta :: matrix
  F_list_alpha :: "matrix list"
  F_list_beta :: "matrix list"
  DIIS_resid_alpha :: "matrix list"
  DIIS_resid_beta :: "matrix list"

record rhf_state = loop_vars +
  E_scf_elec :: real
  D_mat :: matrix
  F_mat :: matrix
  C_mat :: matrix

subsection \<open>The unrestricted loop\<close>

text \<open>Step 3 of the notebook, the core guess, and the loop variables before the loop.\<close>

definition uhf_init :: "linalg \<Rightarrow> uhf_input \<Rightarrow> uhf_state" where
  "uhf_init lib inp =
     (let A = fractional_matrix_power lib (S_mat inp) (- 0.5);
          C = snd (eigh lib (H_mat inp) (S_mat inp));
          Da = form_D (num_ao inp) (num_elec_alpha inp) C;
          Db = form_D (num_ao inp) (num_elec_beta inp) C
      in \<lparr> iteration_num = 0, iteration_E_diff = 0, iteration_rmsc_dm = 0,
           converged = False, exceeded_iterations = False,
           E_total = 0, E_elec = 0, A_mat = A,
           D_alpha = Da, D_beta = Db, D_total = madd Da Db,
           F_alpha = [], F_beta = [], C_alpha = [], C_beta = [],
           F_list_alpha = [], F_list_beta = [],
           DIIS_resid_alpha = [], DIIS_resid_beta = [] \<rparr>)"

text \<open>
  \<^verbatim>\<open>F_alpha = H + G_alpha\<close> with \<open>G_alpha\<close> accumulated from \<open>D_alpha\<close>, and the same
  for beta.
\<close>

definition uhf_fock :: "uhf_input \<Rightarrow> matrix \<Rightarrow> matrix" where
  "uhf_fock inp D = madd (H_mat inp) (form_G (num_ao inp) D (eri inp))"

text \<open>
  \<^verbatim>\<open>E_elec = 0.5 * np.sum(np.multiply((D_total), H) +
                        np.multiply(D_alpha, F_alpha) + np.multiply(D_beta, F_beta))\<close>
\<close>

definition uhf_energy :: "matrix \<Rightarrow> matrix \<Rightarrow> matrix \<Rightarrow> matrix \<Rightarrow> matrix \<Rightarrow> matrix \<Rightarrow> real" where
  "uhf_energy H Dt Da Fa Db Fb =
     0.5 * np_sum (madd (madd (multiply Dt H) (multiply Da Fa)) (multiply Db Fb))"

text \<open>\<^verbatim>\<open>diis_r = A.T @ (F @ D @ S - S @ D @ F) @ A\<close>\<close>

definition diis_gradient :: "matrix \<Rightarrow> matrix \<Rightarrow> matrix \<Rightarrow> matrix \<Rightarrow> matrix" where
  "diis_gradient A S F D =
     matmul (matmul (mT A) (msub (matmul (matmul F D) S) (matmul (matmul S D) F))) A"

text \<open>
  \<^verbatim>\<open>
  if iteration_num >= 2:
      F_alpha = diis(F_list_alpha, DIIS_resid_alpha)
      F_beta = diis(F_list_beta, DIIS_resid_beta)
  \<close>
  on the lists that already hold this iteration's entries.
\<close>

definition uhf_extrapolate ::
  "linalg \<Rightarrow> nat \<Rightarrow> matrix \<Rightarrow> matrix \<Rightarrow> matrix list \<Rightarrow> matrix list \<Rightarrow> matrix list \<Rightarrow> matrix list
     \<Rightarrow> error + matrix \<times> matrix" where
  "uhf_extrapolate lib it Fa Fb Fla Flb Ra Rb =
     (if it \<ge> 2 then
        (case diis lib Fla Ra of
           Inl e \<Rightarrow> Inl e
         | Inr Fa' \<Rightarrow> (case diis lib Flb Rb of Inl e \<Rightarrow> Inl e | Inr Fb' \<Rightarrow> Inr (Fa', Fb')))
      else Inr (Fa, Fb))"

text \<open>\<^verbatim>\<open>np.sqrt(np.sum((D_new - D_last)**2))\<close>\<close>

definition rmsc_dm :: "matrix \<Rightarrow> matrix \<Rightarrow> real" where
  "rmsc_dm D_new D_last = sqrt (np_sum (square (msub D_new D_last)))"

text \<open>
  One pass through the body of the \<^verbatim>\<open>while\<close> loop. The body also computes
  \<open>diis_rms\<close>, which nothing reads; it is left out.
\<close>

definition uhf_step :: "linalg \<Rightarrow> uhf_input \<Rightarrow> uhf_state \<Rightarrow> error + uhf_state" where
  "uhf_step lib inp s =
     (let it = iteration_num s + 1;
          E_elec_last = E_elec s;
          D_total_last = D_total s;
          Fa = uhf_fock inp (D_alpha s);
          Fb = uhf_fock inp (D_beta s);
          E = uhf_energy (H_mat inp) (D_total s) (D_alpha s) Fa (D_beta s) Fb;
          ra = diis_gradient (A_mat s) (S_mat inp) Fa (D_alpha s);
          rb = diis_gradient (A_mat s) (S_mat inp) Fb (D_beta s);
          Fla = F_list_alpha s @ [Fa];
          Flb = F_list_beta s @ [Fb];
          Ra = DIIS_resid_alpha s @ [ra];
          Rb = DIIS_resid_beta s @ [rb]
      in case uhf_extrapolate lib it Fa Fb Fla Flb Ra Rb of
           Inl e \<Rightarrow> Inl e
         | Inr (Fa', Fb') \<Rightarrow>
             (let Ca = snd (eigh lib Fa' (S_mat inp));
                  Cb = snd (eigh lib Fb' (S_mat inp));
                  Da = form_D (num_ao inp) (num_elec_alpha inp) Ca;
                  Db = form_D (num_ao inp) (num_elec_beta inp) Cb;
                  Dt = madd Da Db;
                  dE = \<bar>E - E_elec_last\<bar>;
                  dD = rmsc_dm Dt D_total_last;
                  conv = (\<bar>dE\<bar> < convergence_E inp \<and> dD < convergence_DM inp)
              in Inr (s\<lparr> iteration_num := it,
                        iteration_E_diff := dE,
                        iteration_rmsc_dm := dD,
                        converged := (if conv then True else converged s),
                        exceeded_iterations :=
                          (if it = iteration_max inp then True else exceeded_iterations s),
                        E_total := (if conv then E + E_nuc inp else E_total s),
                        E_elec := E,
                        D_alpha := Da, D_beta := Db, D_total := Dt,
                        F_alpha := Fa', F_beta := Fb', C_alpha := Ca, C_beta := Cb,
                        F_list_alpha := Fla, F_list_beta := Flb,
                        DIIS_resid_alpha := Ra, DIIS_resid_beta := Rb \<rparr>)))"

text \<open>
  \<^verbatim>\<open>while (not converged and not exceeded_iterations): ...\<close>
  The loop need not end, so its result is optional; an exception raised in the body
  ends it with the error.
\<close>

partial_function (option) uhf_loop ::
  "linalg \<Rightarrow> uhf_input \<Rightarrow> uhf_state \<Rightarrow> (error + uhf_state) option" where
  "uhf_loop lib inp s =
     (if \<not> converged s \<and> \<not> exceeded_iterations s then
        (case uhf_step lib inp s of
           Inl e \<Rightarrow> Some (Inl e)
         | Inr s' \<Rightarrow> uhf_loop lib inp s')
      else Some (Inr s))"

definition uhf_scf :: "linalg \<Rightarrow> uhf_input \<Rightarrow> (error + uhf_state) option" where
  "uhf_scf lib inp = uhf_loop lib inp (uhf_init lib inp)"

subsection \<open>The restricted loop\<close>

text \<open>\<^verbatim>\<open>D = np.zeros((num_ao, num_ao))\<close> and the loop variables before the loop.\<close>

definition rhf_init :: "rhf_input \<Rightarrow> rhf_state" where
  "rhf_init inp =
     \<lparr> iteration_num = 0, iteration_E_diff = 0, iteration_rmsc_dm = 0,
       converged = False, exceeded_iterations = False,
       E_scf_elec = 0,
       D_mat = replicate (num_ao inp) (replicate (num_ao inp) 0),
       F_mat = [], C_mat = [] \<rparr>"

definition rhf_fock :: "rhf_input \<Rightarrow> matrix \<Rightarrow> matrix" where
  "rhf_fock inp D =
     madd (H_mat inp) (form_G (num_ao inp) D (\<lambda>i j k l. eri_s8 inp ! idx4 i j k l))"

text \<open>\<^verbatim>\<open>E_scf_elec = np.sum(np.multiply(D, (H + F)))\<close>\<close>

definition rhf_energy :: "matrix \<Rightarrow> matrix \<Rightarrow> matrix \<Rightarrow> real" where
  "rhf_energy H D F = np_sum (multiply D (madd H F))"

definition rhf_step :: "linalg \<Rightarrow> rhf_input \<Rightarrow> rhf_state \<Rightarrow> rhf_state" where
  "rhf_step lib inp s =
     (let it = iteration_num s + 1;
          E_elec_last = E_scf_elec s;
          D_last = D_mat s;
          F = rhf_fock inp (D_mat s);
          C = snd (eigh lib F (S_mat inp));
          D = form_D (num_ao inp) (num_elec_alpha inp) C;
          E = rhf_energy (H_mat inp) D F;
          dE = \<bar>E - E_elec_last\<bar>;
          dD = rmsc_dm D D_last
      in s\<lparr> iteration_num := it,
            iteration_E_diff := dE,
            iteration_rmsc_dm := dD,
            converged :=
              (if \<bar>dE\<bar> < convergence_E inp \<and> dD < convergence_DM inp then True
               else converged s),
            exceeded_iterations :=
              (if it = iteration_max inp then True else exceeded_iterations s),
            E_scf_elec := E, D_mat := D, F_mat := F, C_mat := C \<rparr>)"

partial_function (option) rhf_loop ::
  "linalg \<Rightarrow> rhf_input \<Rightarrow> rhf_state \<Rightarrow> rhf_state option" where
  "rhf_loop lib inp s =
     (if \<not> converged s \<and> \<not> exceeded_iterations s then rhf_loop lib inp (rhf_step lib inp s)
      else Some s)"

text \<open>After the loop: \<^verbatim>\<open>E_scf_total = E_scf_elec + E_nuc\<close>.\<close>

definition rhf_scf :: "linalg \<Rightarrow> rhf_input \<Rightarrow> (rhf_state \<times> real) option" where
  "rhf_scf lib inp =
     (case rhf_loop lib inp (rhf_init inp) of
        None \<Rightarrow> None
      | Some s \<Rightarrow> Some (s, E_scf_elec s + E_nuc inp))"

subsection \<open>A reference library instance for one basis function\<close>

text \<open>
  Concrete stand-ins for the three library routines, used to run the loops on
  concrete inputs. \<open>linalg_solve\<close> is elimination with partial pivoting on the
  augmented rows, in exact arithmetic: the pivot is the first row whose leading entry is
  largest in absolute value, an exactly zero pivot is the singular case (\<open>None\<close>), and
  the unknowns come from back substitution. \<open>eigh_1x1\<close> and
  \<open>fractional_matrix_power_1x1\<close> are the generalised eigenproblem and the matrix
  power of a \<open>1 \<times> 1\<close> system: eigenvalue \<open>F\<^sub>0\<^sub>0 / S\<^sub>0\<^sub>0\<close>, eigenvector normalised to
  \<open>C\<^sup>T S C = 1\<close>.
\<close>

fun pivot_row :: "real list list \<Rightarrow> real list" where
  "pivot_row [] = []"
| "pivot_row [r] = r"
| "pivot_row (r # rs) = (let p = pivot_row rs in if \<bar>hd p\<bar> > \<bar>hd r\<bar> then p else r)"

fun gauss :: "nat \<Rightarrow> real list list \<Rightarrow> real list option" where
  "gauss 0 rows = Some []"
| "gauss (Suc m) rows =
     (let p = pivot_row rows in
      if hd p = 0 then None
      else (case gauss m (map (\<lambda>r. tl (map2 (\<lambda>a b. a - (hd r / hd p) * b) r p))
                              (remove1 p rows)) of
              None \<Rightarrow> None
            | Some xs \<Rightarrow> Some ((last p - sum_list (map2 (*) (tl p) xs)) / hd p # xs)))"

definition linalg_solve :: "matrix \<Rightarrow> vector \<Rightarrow> vector option" where
  "linalg_solve B right = gauss (length B) (map2 (\<lambda>row b. row @ [b]) B right)"

definition eigh_1x1 :: "matrix \<Rightarrow> matrix \<Rightarrow> vector \<times> matrix" where
  "eigh_1x1 F S = ([F ! 0 ! 0 / S ! 0 ! 0], [[1 / sqrt (S ! 0 ! 0)]])"

definition fractional_matrix_power_1x1 :: "matrix \<Rightarrow> real \<Rightarrow> matrix" where
  "fractional_matrix_power_1x1 S p = [[(S ! 0 ! 0) powr p]]"

definition lib_1x1 :: linalg where
  "lib_1x1 = \<lparr> eigh = eigh_1x1, solve = linalg_solve,
               fractional_matrix_power = fractional_matrix_power_1x1 \<rparr>"

text \<open>
  A one-function system with overlap \<open>1\<close>, core Hamiltonian \<open>h\<close> and the single
  repulsion integral \<open>e\<close>, for the unrestricted and for the restricted loop.
\<close>

definition uhf_1x1 :: "nat \<Rightarrow> nat \<Rightarrow> real \<Rightarrow> real \<Rightarrow> nat \<Rightarrow> uhf_input" where
  "uhf_1x1 na nb h e itmax =
     \<lparr> num_ao = 1, num_elec_alpha = na, num_elec_beta = nb, E_nuc = 0,
       S_mat = [[1]], H_mat = [[h]], iteration_max = itmax,
       convergence_E = 1 / 10 ^ 9, convergence_DM = 1 / 10 ^ 5,
       eri = (\<lambda>i j k l. e) \<rparr>"

definition rhf_1x1 :: "nat \<Rightarrow> real \<Rightarrow> real \<Rightarrow> nat \<Rightarrow> rhf_input" where
  "rhf_1x1 na h e itmax =
     \<lparr> num_ao = 1, num_elec_alpha = na, num_elec_beta = na, E_nuc = 0,
       S_mat = [[1]], H_mat = [[h]], iteration_max = itmax,
       convergence_E = 1 / 10 ^ 9, convergence_DM = 1 / 10 ^ 5,
       eri_s8 = [e] \<rparr>"

subsection \<open>Predicates of the statements\<close>

text \<open>
  The eightfold permutational symmetry of the two-electron integrals, generated by the
  exchange inside the first pair, inside the second pair, and of the two pairs.
\<close>

definition eri_symmetric :: "nat \<Rightarrow> (nat \<Rightarrow> nat \<Rightarrow> nat \<Rightarrow> nat \<Rightarrow> real) \<Rightarrow> bool" where
  "eri_symmetric n g \<longleftrightarrow>
     (\<forall>i<n. \<forall>j<n. \<forall>k<n. \<forall>l<n.
        g i j k l = g j i k l \<and> g i j k l = g i j l k \<and> g i j k l = g k l i j)"







text \<open>
  The state of the one-function closed-shell run (\<open>H = -1\<close>, integral \<open>1\<close>) after its
  first iteration, when the ceiling is not \<open>1\<close>.
\<close>

definition uhf_1x1_state1 :: uhf_state where
  "uhf_1x1_state1 =
     \<lparr> iteration_num = 1, iteration_E_diff = 1, iteration_rmsc_dm = 0,
       converged = False, exceeded_iterations = False,
       E_total = 0, E_elec = - 1, A_mat = [[1]],
       D_alpha = [[1]], D_beta = [[1]], D_total = [[2]],
       F_alpha = [[0]], F_beta = [[0]], C_alpha = [[1]], C_beta = [[1]],
       F_list_alpha = [[[0]]], F_list_beta = [[[0]]],
       DIIS_resid_alpha = [[[0]]], DIIS_resid_beta = [[[0]]] \<rparr>"






section \<open>Properties\<close>

subsection \<open>Loops as sums, entries of the builders\<close>


lemma fold_add_sum_list:
  "fold (\<lambda>k acc. acc + f k) xs (a::real) = a + sum_list (map f xs)"
  by (induction xs arbitrary: a) (simp_all add: add.assoc)

lemma fold_fold_add_sum_list:
  "fold (\<lambda>k. fold (\<lambda>l acc. acc + h k l) ys) xs (a::real)
     = a + sum_list (map (\<lambda>k. sum_list (map (h k) ys)) xs)"
proof -
  have "(\<lambda>k. fold (\<lambda>l acc. acc + h k l) ys) = (\<lambda>k acc. acc + sum_list (map (h k) ys))"
    by (intro ext) (rule fold_add_sum_list)
  then show ?thesis
    by (simp add: fold_add_sum_list)
qed

lemma sum_list_upt: "sum_list (map f [0..<n]) = (\<Sum>k<n. (f k :: real))"
  by (simp add: interv_sum_list_conv_sum_set_nat atLeast0LessThan)

lemma form_D_nth:
  "i < n \<Longrightarrow> j < n \<Longrightarrow> form_D n N C ! i ! j = (\<Sum>k<N. C ! i ! k * C ! j ! k)"
  by (simp add: form_D_def fold_add_sum_list sum_list_upt)

lemma form_G_nth:
  "i < n \<Longrightarrow> j < n \<Longrightarrow>
   form_G n D g ! i ! j = (\<Sum>k<n. \<Sum>l<n. D ! k ! l * (2 * g i j k l - g i k j l))"
  by (simp add: form_G_def fold_fold_add_sum_list sum_list_upt)

lemma is_mat_form_D: "is_mat n (form_D n N C)"
  by (simp add: is_mat_def form_D_def list_all_iff)

lemma is_mat_form_G: "is_mat n (form_G n D g)"
  by (simp add: is_mat_def form_G_def list_all_iff)


lemma madd_nth:
  "is_mat n X \<Longrightarrow> is_mat n Y \<Longrightarrow> i < n \<Longrightarrow> j < n \<Longrightarrow> madd X Y ! i ! j = X ! i ! j + Y ! i ! j"
  by (simp add: madd_def is_mat_def list_all_length)

lemma is_mat_madd: "is_mat n X \<Longrightarrow> is_mat n Y \<Longrightarrow> is_mat n (madd X Y)"
  by (auto simp add: madd_def is_mat_def list_all_length)






lemma symmetric_form_G:
  assumes D: "symmetric n D" and g: "eri_symmetric n g"
  shows "symmetric n (form_G n D g)"
proof -
  have "form_G n D g ! i ! j = form_G n D g ! j ! i" if ij: "i < n" "j < n" for i j
  proof -
    have coul: "(\<Sum>k<n. \<Sum>l<n. D ! k ! l * g j i k l) = (\<Sum>k<n. \<Sum>l<n. D ! k ! l * g i j k l)"
      using g ij by (intro sum.cong refl) (simp add: eri_symmetric_def)
    have "(\<Sum>k<n. \<Sum>l<n. D ! k ! l * g j k i l) = (\<Sum>l<n. \<Sum>k<n. D ! k ! l * g j k i l)"
      by (rule sum.swap)
    also have "\<dots> = (\<Sum>l<n. \<Sum>k<n. D ! l ! k * g i l j k)"
    proof (intro sum.cong refl)
      fix l k assume "l \<in> {..<n}" "k \<in> {..<n}"
      then have lk: "l < n" "k < n" by simp_all
      have "g j k i l = g i l j k"
        using g ij lk by (simp add: eri_symmetric_def)
      moreover have "D ! k ! l = D ! l ! k"
        using D lk by (simp add: symmetric_def)
      ultimately show "D ! k ! l * g j k i l = D ! l ! k * g i l j k" by simp
    qed
    finally have exch: "(\<Sum>k<n. \<Sum>l<n. D ! k ! l * g j k i l) = (\<Sum>k<n. \<Sum>l<n. D ! k ! l * g i k j l)" .
    have split: "(\<Sum>k<n. \<Sum>l<n. D ! k ! l * (2 * g a b k l - g a k b l))
        = 2 * (\<Sum>k<n. \<Sum>l<n. D ! k ! l * g a b k l) - (\<Sum>k<n. \<Sum>l<n. D ! k ! l * g a k b l)" for a b
      by (simp add: right_diff_distrib sum_subtractf sum_distrib_left mult.left_commute)
    show ?thesis
      using ij by (simp add: form_G_nth split coul exch)
  qed
  then show ?thesis by (simp add: symmetric_def)
qed

subsection \<open>Symmetry is preserved by the array operations\<close>


lemma symmetric_madd:
  "is_mat n X \<Longrightarrow> is_mat n Y \<Longrightarrow> symmetric n X \<Longrightarrow> symmetric n Y \<Longrightarrow> symmetric n (madd X Y)"
  by (simp add: symmetric_def madd_nth)



lemma symmetric_fock:
  assumes "is_mat n H" "symmetric n H" "eri_symmetric n g" "symmetric n D"
  shows "is_mat n (madd H (form_G n D g)) \<and> symmetric n (madd H (form_G n D g))"
  using assms by (simp add: is_mat_madd is_mat_form_G symmetric_madd symmetric_form_G)





lemma uhf_step_cases:
  assumes "uhf_step lib inp s = Inr s'"
  obtains Fa' Fb' where
    "uhf_extrapolate lib (iteration_num s + 1)
       (uhf_fock inp (D_alpha s)) (uhf_fock inp (D_beta s))
       (F_list_alpha s @ [uhf_fock inp (D_alpha s)]) (F_list_beta s @ [uhf_fock inp (D_beta s)])
       (DIIS_resid_alpha s @ [diis_gradient (A_mat s) (S_mat inp) (uhf_fock inp (D_alpha s)) (D_alpha s)])
       (DIIS_resid_beta s @ [diis_gradient (A_mat s) (S_mat inp) (uhf_fock inp (D_beta s)) (D_beta s)])
     = Inr (Fa', Fb')"
    "F_alpha s' = Fa'" "F_beta s' = Fb'"
    "C_alpha s' = snd (eigh lib Fa' (S_mat inp))" "C_beta s' = snd (eigh lib Fb' (S_mat inp))"
    "D_alpha s' = form_D (num_ao inp) (num_elec_alpha inp) (C_alpha s')"
    "D_beta s' = form_D (num_ao inp) (num_elec_beta inp) (C_beta s')"
    "D_total s' = madd (D_alpha s') (D_beta s')"
    "F_list_alpha s' = F_list_alpha s @ [uhf_fock inp (D_alpha s)]"
    "F_list_beta s' = F_list_beta s @ [uhf_fock inp (D_beta s)]"
    "DIIS_resid_alpha s' = DIIS_resid_alpha s @ [diis_gradient (A_mat s) (S_mat inp) (uhf_fock inp (D_alpha s)) (D_alpha s)]"
    "DIIS_resid_beta s' = DIIS_resid_beta s @ [diis_gradient (A_mat s) (S_mat inp) (uhf_fock inp (D_beta s)) (D_beta s)]"
    "iteration_num s' = iteration_num s + 1"
    "E_elec s' = uhf_energy (H_mat inp) (D_total s) (D_alpha s) (uhf_fock inp (D_alpha s))
                   (D_beta s) (uhf_fock inp (D_beta s))"
    "A_mat s' = A_mat s"
    "iteration_E_diff s' = \<bar>E_elec s' - E_elec s\<bar>"
    "iteration_rmsc_dm s' = rmsc_dm (D_total s') (D_total s)"
    "converged s' =
       (if \<bar>iteration_E_diff s'\<bar> < convergence_E inp \<and> iteration_rmsc_dm s' < convergence_DM inp
        then True else converged s)"
    "exceeded_iterations s' =
       (if iteration_num s' = iteration_max inp then True else exceeded_iterations s)"
    "E_total s' =
       (if \<bar>iteration_E_diff s'\<bar> < convergence_E inp \<and> iteration_rmsc_dm s' < convergence_DM inp
        then E_elec s' + E_nuc inp else E_total s)"
  using assms unfolding uhf_step_def Let_def
  by (auto split: sum.splits prod.splits)

subsection \<open>Evaluating the loops on concrete inputs\<close>


lemmas array_simps = zeros_like_def madd_def msub_def multiply_def scale_def square_def
  np_sum_def einsum_def ncols_def mT_def matmul_def is_mat_def form_D_def form_G_def

lemmas uhf_simps = uhf_init_def uhf_step_def uhf_fock_def uhf_energy_def diis_gradient_def
  uhf_extrapolate_def rmsc_dm_def diis_def pulay_B_def pulay_right_def Let_def

lemmas lib_1x1_simps = lib_1x1_def eigh_1x1_def linalg_solve_def fractional_matrix_power_1x1_def
  uhf_1x1_def rhf_1x1_def


lemmas rhf_simps = rhf_init_def rhf_step_def rhf_fock_def rhf_energy_def rmsc_dm_def idx2_def
  idx4_def Let_def


lemma idx2_commute: "idx2 i j = idx2 j i"
  by (simp add: idx2_def)

lemma eri_symmetric_idx4: "eri_symmetric n (\<lambda>i j k l. e ! idx4 i j k l)"
  by (simp add: eri_symmetric_def idx4_def idx2_commute)

lemma symmetric_rhf_fock:
  assumes "is_mat (num_ao inp) (H_mat inp)" "symmetric (num_ao inp) (H_mat inp)"
    and "symmetric (num_ao inp) D"
  shows "symmetric (num_ao inp) (rhf_fock inp D)"
  using assms eri_symmetric_idx4 [of "num_ao inp" "eri_s8 inp"]
  by (simp add: rhf_fock_def symmetric_fock)

subsection \<open>The loops end\<close>







subsection \<open>Runs of the one-function system\<close>

lemma uhf_1x1_first_iteration:
  "uhf_step lib_1x1 (uhf_1x1 1 1 (- 1) 1 M) (uhf_init lib_1x1 (uhf_1x1 1 1 (- 1) 1 M)) =
     Inr \<lparr> iteration_num = 1, iteration_E_diff = 1, iteration_rmsc_dm = 0,
           converged = False, exceeded_iterations = (M = 1),
           E_total = 0, E_elec = - 1, A_mat = [[1]],
           D_alpha = [[1]], D_beta = [[1]], D_total = [[2]],
           F_alpha = [[0]], F_beta = [[0]], C_alpha = [[1]], C_beta = [[1]],
           F_list_alpha = [[[0]]], F_list_beta = [[[0]]],
           DIIS_resid_alpha = [[[0]]], DIIS_resid_beta = [[[0]]] \<rparr>"
  by (auto simp add: uhf_simps lib_1x1_simps array_simps)









lemma rhf_1x1_first_iteration:
  "rhf_step lib_1x1 (rhf_1x1 1 (- 1) 1 M) (rhf_init (rhf_1x1 1 (- 1) 1 M)) =
     \<lparr> iteration_num = 1, iteration_E_diff = 2, iteration_rmsc_dm = 1,
       converged = False, exceeded_iterations = (M = 1), E_scf_elec = - 2,
       D_mat = [[1]], F_mat = [[- 1]], C_mat = [[1]] \<rparr>"
  by (auto simp add: rhf_simps lib_1x1_simps array_simps)





lemma uhf_1x1_init:
  "uhf_init lib_1x1 (uhf_1x1 1 1 (- 1) 1 M) =
     \<lparr> iteration_num = 0, iteration_E_diff = 0, iteration_rmsc_dm = 0,
       converged = False, exceeded_iterations = False,
       E_total = 0, E_elec = 0, A_mat = [[1]],
       D_alpha = [[1]], D_beta = [[1]], D_total = [[2]],
       F_alpha = [], F_beta = [], C_alpha = [], C_beta = [],
       F_list_alpha = [], F_list_beta = [],
       DIIS_resid_alpha = [], DIIS_resid_beta = [] \<rparr>"
  by (simp add: uhf_init_def Let_def lib_1x1_simps form_D_def madd_def)

lemma rhf_1x1_init:
  "rhf_init (rhf_1x1 1 (- 1) 1 M) =
     \<lparr> iteration_num = 0, iteration_E_diff = 0, iteration_rmsc_dm = 0,
       converged = False, exceeded_iterations = False, E_scf_elec = 0,
       D_mat = [[0]], F_mat = [], C_mat = [] \<rparr>"
  by (simp add: rhf_init_def rhf_1x1_def)

subsection \<open>The Pulay system\<close>

















subsection \<open>Sums over all entries\<close>

lemma np_sum_entries:
  assumes "is_mat n X"
  shows "np_sum X = (\<Sum>i<n. \<Sum>j<n. X ! i ! j)"
proof -
  from assms have len: "length X = n" and rows: "\<And>i. i < n \<Longrightarrow> length (X ! i) = n"
    by (simp_all add: is_mat_def list_all_length)
  have "np_sum X = (\<Sum>i<n. sum_list (X ! i))"
    by (simp add: np_sum_def sum_list_sum_nth len atLeast0LessThan)
  also have "\<dots> = (\<Sum>i<n. \<Sum>j<n. X ! i ! j)"
    by (intro sum.cong refl) (simp add: sum_list_sum_nth rows atLeast0LessThan)
  finally show ?thesis .
qed

lemma multiply_nth:
  "is_mat n X \<Longrightarrow> is_mat n Y \<Longrightarrow> i < n \<Longrightarrow> j < n \<Longrightarrow> multiply X Y ! i ! j = X ! i ! j * Y ! i ! j"
  by (simp add: multiply_def is_mat_def list_all_length)

lemma is_mat_multiply: "is_mat n X \<Longrightarrow> is_mat n Y \<Longrightarrow> is_mat n (multiply X Y)"
  by (auto simp add: multiply_def is_mat_def list_all_length)

lemma is_mat_uhf_fock: "is_mat (num_ao inp) (H_mat inp) \<Longrightarrow> is_mat (num_ao inp) (uhf_fock inp D)"
  by (simp add: uhf_fock_def is_mat_madd is_mat_form_G)

lemma is_mat_rhf_fock: "is_mat (num_ao inp) (H_mat inp) \<Longrightarrow> is_mat (num_ao inp) (rhf_fock inp D)"
  by (simp add: rhf_fock_def is_mat_madd is_mat_form_G)

lemma uhf_energy_entries:
  assumes "is_mat n H" "is_mat n Dt" "is_mat n Da" "is_mat n Fa" "is_mat n Db" "is_mat n Fb"
  shows "uhf_energy H Dt Da Fa Db Fb =
         1 / 2 * (\<Sum>i<n. \<Sum>j<n. Dt ! i ! j * H ! i ! j + Da ! i ! j * Fa ! i ! j + Db ! i ! j * Fb ! i ! j)"
proof -
  have m: "is_mat n (madd (madd (multiply Dt H) (multiply Da Fa)) (multiply Db Fb))"
    using assms by (simp add: is_mat_madd is_mat_multiply)
  have "np_sum (madd (madd (multiply Dt H) (multiply Da Fa)) (multiply Db Fb)) =
        (\<Sum>i<n. \<Sum>j<n. Dt ! i ! j * H ! i ! j + Da ! i ! j * Fa ! i ! j + Db ! i ! j * Fb ! i ! j)"
    unfolding np_sum_entries [OF m]
    using assms by (intro sum.cong refl) (simp add: madd_nth [where n = n] multiply_nth [where n = n] is_mat_madd is_mat_multiply)
  then show ?thesis by (simp add: uhf_energy_def)
qed

lemma rhf_energy_entries:
  assumes "is_mat n H" "is_mat n D" "is_mat n F"
  shows "rhf_energy H D F = (\<Sum>i<n. \<Sum>j<n. D ! i ! j * (H ! i ! j + F ! i ! j))"
proof -
  have m: "is_mat n (multiply D (madd H F))"
    using assms by (simp add: is_mat_madd is_mat_multiply)
  show ?thesis
    unfolding rhf_energy_def np_sum_entries [OF m]
    using assms by (intro sum.cong refl) (simp add: madd_nth [where n = n] multiply_nth [where n = n] is_mat_madd)
qed

lemma form_G_zero: "form_G n (replicate n (replicate n 0)) g = replicate n (replicate n 0)"
proof (rule nth_equalityI)
  show "length (form_G n (replicate n (replicate n 0)) g) = length (replicate n (replicate n (0::real)))"
    by (simp add: form_G_def)
next
  fix i assume "i < length (form_G n (replicate n (replicate n 0)) g)"
  then have i: "i < n" by (simp add: form_G_def)
  show "form_G n (replicate n (replicate n 0)) g ! i = replicate n (replicate n 0) ! i"
  proof (rule nth_equalityI)
    show "length (form_G n (replicate n (replicate n 0)) g ! i) = length (replicate n (replicate n (0::real)) ! i)"
      using i by (simp add: form_G_def)
  next
    fix j assume "j < length (form_G n (replicate n (replicate n 0)) g ! i)"
    with i have j: "j < n" by (simp add: form_G_def)
    from i j show "form_G n (replicate n (replicate n 0)) g ! i ! j = replicate n (replicate n 0) ! i ! j"
      by (simp add: form_G_nth)
  qed
qed

lemma row_plus_zero: "length r = n \<Longrightarrow> map2 (+) r (replicate n 0) = (r::real list)"
  by (induction r arbitrary: n) auto

lemma madd_zero_right: "is_mat n X \<Longrightarrow> madd X (replicate n (replicate n 0)) = X"
proof -
  have "list_all (\<lambda>r. length r = n) X \<Longrightarrow> map2 (map2 (+)) X (replicate m (replicate n 0)) = X"
    if "length X = m" for m
    using that by (induction X arbitrary: m) (auto simp add: row_plus_zero)
  then show "is_mat n X \<Longrightarrow> madd X (replicate n (replicate n 0)) = X"
    by (simp add: is_mat_def madd_def)
qed

lemma rhf_fock_zero:
  "is_mat (num_ao inp) (H_mat inp) \<Longrightarrow>
   rhf_fock inp (replicate (num_ao inp) (replicate (num_ao inp) 0)) = H_mat inp"
  by (simp add: rhf_fock_def form_G_zero madd_zero_right)

subsection \<open>Equal spin channels\<close>












subsection \<open>Symmetry of densities and Fock matrices\<close>



subsection \<open>The G matrices of the unrestricted loop\<close>

text \<open>
  Claim C1 asks for \<open>G\<^sup>\<sigma>\<^sub>i\<^sub>j = \<Sum>\<^sub>k\<^sub>l P\<^sup>T\<^sub>k\<^sub>l (ij|kl) - P\<^sup>\<sigma>\<^sub>k\<^sub>l (ik|jl)\<close>, the formula of the
  notebook's own text. The loop accumulates \<open>D\<^sup>\<sigma>\<^sub>k\<^sub>l (2 (ij|kl) - (ik|jl))\<close>
  instead (lemma \<open>form_G_nth\<close>): the Coulomb term is contracted with twice the
  same-spin density. The two agree when \<open>D_alpha = D_beta\<close> and differ otherwise.
  The evaluation below is the one-function doublet with one alpha electron and no beta
  electron (\<open>H = -1\<close>, integral \<open>1\<close>): after the core guess \<open>D_alpha = [[1]]\<close>,
  \<open>D_beta = [[0]]\<close>, \<open>D_total = [[1]]\<close>; the loop's \<open>G_alpha\<close> is \<open>[[1]]\<close> and its
  \<open>G_beta\<close> is \<open>[[0]]\<close>, where the formula of the claim gives \<open>0\<close> and \<open>1\<close>; the loop's
  Fock matrices are \<open>[[0]]\<close> and \<open>[[-1]]\<close>, where the claim's are \<open>[[-1]]\<close> and \<open>[[0]]\<close>.
\<close>

theorem uhf_coulomb_term_uses_same_spin_density:
  "D_alpha (uhf_init lib_1x1 (uhf_1x1 1 0 (- 1) 1 100)) = [[1]] \<and>
   D_beta (uhf_init lib_1x1 (uhf_1x1 1 0 (- 1) 1 100)) = [[0]] \<and>
   D_total (uhf_init lib_1x1 (uhf_1x1 1 0 (- 1) 1 100)) = [[1]] \<and>
   form_G 1 [[1]] (eri (uhf_1x1 1 0 (- 1) 1 100)) = [[1]] \<and>
   form_G 1 [[0]] (eri (uhf_1x1 1 0 (- 1) 1 100)) = [[0]] \<and>
   (\<Sum>k<1. \<Sum>l<1. [[1]] ! k ! l * eri (uhf_1x1 1 0 (- 1) 1 100) 0 0 k l
                  - [[1]] ! k ! l * eri (uhf_1x1 1 0 (- 1) 1 100) 0 k 0 l) = (0::real) \<and>
   (\<Sum>k<1. \<Sum>l<1. [[1]] ! k ! l * eri (uhf_1x1 1 0 (- 1) 1 100) 0 0 k l
                  - [[0]] ! k ! l * eri (uhf_1x1 1 0 (- 1) 1 100) 0 k 0 l) = (1::real) \<and>
   uhf_fock (uhf_1x1 1 0 (- 1) 1 100) [[1]] = [[0]] \<and>
   uhf_fock (uhf_1x1 1 0 (- 1) 1 100) [[0]] = [[- 1]]"
  by (simp add: uhf_simps lib_1x1_simps array_simps)

subsection \<open>The convergence test\<close>

text \<open>
  Claim C2. An iteration entered with \<open>converged = False\<close> (the loop condition) leaves
  \<open>converged\<close> true exactly when both the energy change of this iteration is below
  \<open>convergence_E\<close> and the density change of this iteration is below
  \<open>convergence_DM\<close>; the energy change is \<open>|E - E_last|\<close> and the density change is the
  root of the summed squared differences of the (total) density matrix. This holds for
  the unrestricted and for the restricted loop.
\<close>

theorem converged_iff_dual_test:
  "(\<not> converged s \<and> uhf_step lib inp s = Inr s' \<longrightarrow>
      (converged s' \<longleftrightarrow>
         \<bar>iteration_E_diff s'\<bar> < convergence_E inp \<and> iteration_rmsc_dm s' < convergence_DM inp) \<and>
      iteration_E_diff s' = \<bar>E_elec s' - E_elec s\<bar> \<and>
      iteration_rmsc_dm s' = rmsc_dm (D_total s') (D_total s)) \<and>
   (\<not> converged r \<longrightarrow>
      (converged (rhf_step lib rinp r) \<longleftrightarrow>
         \<bar>iteration_E_diff (rhf_step lib rinp r)\<bar> < convergence_E rinp \<and>
         iteration_rmsc_dm (rhf_step lib rinp r) < convergence_DM rinp) \<and>
      iteration_E_diff (rhf_step lib rinp r) = \<bar>E_scf_elec (rhf_step lib rinp r) - E_scf_elec r\<bar> \<and>
      iteration_rmsc_dm (rhf_step lib rinp r) = rmsc_dm (D_mat (rhf_step lib rinp r)) (D_mat r))"
proof (intro conjI impI)
  assume a: "\<not> converged s \<and> uhf_step lib inp s = Inr s'"
  then have step: "uhf_step lib inp s = Inr s'" and nc: "\<not> converged s" by simp_all
  from step nc show "converged s' \<longleftrightarrow>
         \<bar>iteration_E_diff s'\<bar> < convergence_E inp \<and> iteration_rmsc_dm s' < convergence_DM inp"
    by (cases rule: uhf_step_cases) simp
  from step show "iteration_E_diff s' = \<bar>E_elec s' - E_elec s\<bar>"
    by (cases rule: uhf_step_cases)
  from step show "iteration_rmsc_dm s' = rmsc_dm (D_total s') (D_total s)"
    by (cases rule: uhf_step_cases)
next
  assume "\<not> converged r"
  then show "converged (rhf_step lib rinp r) \<longleftrightarrow>
         \<bar>iteration_E_diff (rhf_step lib rinp r)\<bar> < convergence_E rinp \<and>
         iteration_rmsc_dm (rhf_step lib rinp r) < convergence_DM rinp"
    by (simp add: rhf_step_def Let_def)
  show "iteration_E_diff (rhf_step lib rinp r) = \<bar>E_scf_elec (rhf_step lib rinp r) - E_scf_elec r\<bar>"
    by (simp add: rhf_step_def Let_def)
  show "iteration_rmsc_dm (rhf_step lib rinp r) = rmsc_dm (D_mat (rhf_step lib rinp r)) (D_mat r)"
    by (simp add: rhf_step_def Let_def)
qed

theorem converged_iff_dual_test_witness:
  "\<not> converged (uhf_init lib_1x1 (uhf_1x1 1 1 (- 1) 1 100)) \<and>
   (\<exists>s'. uhf_step lib_1x1 (uhf_1x1 1 1 (- 1) 1 100) (uhf_init lib_1x1 (uhf_1x1 1 1 (- 1) 1 100)) = Inr s' \<and>
      iteration_E_diff s' = 1 \<and> iteration_rmsc_dm s' = 0 \<and>
      iteration_rmsc_dm s' < convergence_DM (uhf_1x1 1 1 (- 1) 1 100) \<and>
      \<not> \<bar>iteration_E_diff s'\<bar> < convergence_E (uhf_1x1 1 1 (- 1) 1 100) \<and>
      \<not> converged s' \<and>
      (converged s' \<longleftrightarrow>
         \<bar>iteration_E_diff s'\<bar> < convergence_E (uhf_1x1 1 1 (- 1) 1 100) \<and>
         iteration_rmsc_dm s' < convergence_DM (uhf_1x1 1 1 (- 1) 1 100))) \<and>
   \<not> converged (rhf_init (rhf_1x1 1 (- 1) 1 100)) \<and>
   iteration_E_diff (rhf_step lib_1x1 (rhf_1x1 1 (- 1) 1 100) (rhf_init (rhf_1x1 1 (- 1) 1 100))) = 2 \<and>
   iteration_rmsc_dm (rhf_step lib_1x1 (rhf_1x1 1 (- 1) 1 100) (rhf_init (rhf_1x1 1 (- 1) 1 100))) = 1 \<and>
   (converged (rhf_step lib_1x1 (rhf_1x1 1 (- 1) 1 100) (rhf_init (rhf_1x1 1 (- 1) 1 100))) \<longleftrightarrow>
      \<bar>iteration_E_diff (rhf_step lib_1x1 (rhf_1x1 1 (- 1) 1 100) (rhf_init (rhf_1x1 1 (- 1) 1 100)))\<bar>
         < convergence_E (rhf_1x1 1 (- 1) 1 100) \<and>
      iteration_rmsc_dm (rhf_step lib_1x1 (rhf_1x1 1 (- 1) 1 100) (rhf_init (rhf_1x1 1 (- 1) 1 100)))
         < convergence_DM (rhf_1x1 1 (- 1) 1 100))"
proof -
  let ?inp = "uhf_1x1 1 1 (- 1) 1 100" and ?rinp = "rhf_1x1 1 (- 1) 1 100"
  have u0: "\<not> converged (uhf_init lib_1x1 ?inp)"
    by (simp add: uhf_init_def Let_def)
  obtain s' where s': "uhf_step lib_1x1 ?inp (uhf_init lib_1x1 ?inp) = Inr s'"
    "iteration_E_diff s' = 1" "iteration_rmsc_dm s' = 0"
    by (simp add: uhf_simps lib_1x1_simps array_simps)
  have thr: "convergence_E ?inp = 1 / 10 ^ 9" "convergence_DM ?inp = 1 / 10 ^ 5"
    by (simp_all add: uhf_1x1_def)
  have r0: "\<not> converged (rhf_init ?rinp)"
    by (simp add: rhf_init_def)
  have r1: "iteration_E_diff (rhf_step lib_1x1 ?rinp (rhf_init ?rinp)) = 2"
    "iteration_rmsc_dm (rhf_step lib_1x1 ?rinp (rhf_init ?rinp)) = 1"
    by (simp_all add: rhf_simps lib_1x1_simps array_simps)
  note T = converged_iff_dual_test [of "uhf_init lib_1x1 ?inp" lib_1x1 ?inp s' "rhf_init ?rinp" ?rinp]
  from T u0 s'(1) have a: "converged s' \<longleftrightarrow>
         \<bar>iteration_E_diff s'\<bar> < convergence_E ?inp \<and> iteration_rmsc_dm s' < convergence_DM ?inp"
    by blast
  from T r0 have b: "converged (rhf_step lib_1x1 ?rinp (rhf_init ?rinp)) \<longleftrightarrow>
      \<bar>iteration_E_diff (rhf_step lib_1x1 ?rinp (rhf_init ?rinp))\<bar> < convergence_E ?rinp \<and>
      iteration_rmsc_dm (rhf_step lib_1x1 ?rinp (rhf_init ?rinp)) < convergence_DM ?rinp"
    by blast
  have c: "iteration_rmsc_dm s' < convergence_DM ?inp" "\<not> \<bar>iteration_E_diff s'\<bar> < convergence_E ?inp"
    using s' thr by simp_all
  with a have d: "\<not> converged s'" by blast
  from u0 s' a c d r0 r1 b show ?thesis by blast
qed

subsection \<open>The iteration ceiling\<close>




subsection \<open>Both terminal flags in one iteration\<close>

text \<open>
  Claim C10. When the loop body runs (neither flag set), returns a state whose
  iteration count equals \<open>iteration_max\<close>, and both convergence criteria hold in that
  iteration, then that state has \<open>converged = True\<close> and \<open>exceeded_iterations = True\<close>, and
  the loop exits with it.
\<close>

theorem converged_and_exceeded_together:
  assumes "\<not> converged s" "\<not> exceeded_iterations s"
    and "uhf_step lib inp s = Inr s'"
    and "iteration_num s' = iteration_max inp"
    and "\<bar>iteration_E_diff s'\<bar> < convergence_E inp" "iteration_rmsc_dm s' < convergence_DM inp"
  shows "converged s' \<and> exceeded_iterations s' \<and> uhf_loop lib inp s = Some (Inr s')"
proof -
  from assms(3) have flags: "converged s' \<and> exceeded_iterations s'"
    using assms(4-6) by (cases rule: uhf_step_cases) simp
  have "uhf_loop lib inp s = uhf_loop lib inp s'"
    using assms(1-3) by (subst uhf_loop.simps) simp
  also have "\<dots> = Some (Inr s')"
    using flags by (subst uhf_loop.simps) simp
  finally show ?thesis
    using flags by simp
qed

theorem converged_and_exceeded_together_witness:
  "\<not> converged (uhf_init lib_1x1 (uhf_1x1 1 1 (- 1) 2 1)) \<and>
   \<not> exceeded_iterations (uhf_init lib_1x1 (uhf_1x1 1 1 (- 1) 2 1)) \<and>
   (\<exists>s'. uhf_step lib_1x1 (uhf_1x1 1 1 (- 1) 2 1) (uhf_init lib_1x1 (uhf_1x1 1 1 (- 1) 2 1)) = Inr s' \<and>
      iteration_num s' = iteration_max (uhf_1x1 1 1 (- 1) 2 1) \<and>
      \<bar>iteration_E_diff s'\<bar> < convergence_E (uhf_1x1 1 1 (- 1) 2 1) \<and>
      iteration_rmsc_dm s' < convergence_DM (uhf_1x1 1 1 (- 1) 2 1) \<and>
      converged s' \<and> exceeded_iterations s' \<and>
      uhf_scf lib_1x1 (uhf_1x1 1 1 (- 1) 2 1) = Some (Inr s'))"
proof -
  let ?inp = "uhf_1x1 1 1 (- 1) 2 1"
  have f: "\<not> converged (uhf_init lib_1x1 ?inp)" "\<not> exceeded_iterations (uhf_init lib_1x1 ?inp)"
    by (simp_all add: uhf_init_def Let_def)
  obtain s' where s': "uhf_step lib_1x1 ?inp (uhf_init lib_1x1 ?inp) = Inr s'"
    "iteration_num s' = 1" "iteration_E_diff s' = 0" "iteration_rmsc_dm s' = 0"
    by (simp add: uhf_simps lib_1x1_simps array_simps)
  have c: "iteration_max ?inp = 1" "convergence_E ?inp = 1 / 10 ^ 9" "convergence_DM ?inp = 1 / 10 ^ 5"
    by (simp_all add: uhf_1x1_def)
  have h: "iteration_num s' = iteration_max ?inp" "\<bar>iteration_E_diff s'\<bar> < convergence_E ?inp"
    "iteration_rmsc_dm s' < convergence_DM ?inp"
    using s' c by simp_all
  from converged_and_exceeded_together [OF f s'(1) h]
  have "converged s' \<and> exceeded_iterations s' \<and> uhf_scf lib_1x1 ?inp = Some (Inr s')"
    by (simp add: uhf_scf_def)
  with f s'(1) h show ?thesis by blast
qed

subsection \<open>A singular Pulay system\<close>




subsection \<open>Short DIIS histories\<close>



subsection \<open>The electronic energy\<close>

text \<open>
  Claim C4, amended. In an iteration of the unrestricted loop that returns, the
  electronic energy is half the sum over all entries of
  \<open>D_total \<circ> H + D_alpha \<circ> F_alpha + D_beta \<circ> F_beta\<close>, taken with the densities the
  iteration started from and the Fock matrices built from them, before any
  extrapolation. In the restricted loop the energy is the sum over all entries of
  \<open>D' \<circ> (H + F)\<close> with no factor one half, where \<open>F\<close> is the Fock matrix built from the
  density the iteration started from and \<open>D'\<close> is the density rebuilt in the same
  iteration from the eigenvectors of \<open>F\<close>: the restricted loop computes the energy after
  the density update, the unrestricted loop before it.
\<close>

theorem electronic_energy_formulas:
  "(is_mat (num_ao inp) (H_mat inp) \<and> is_mat (num_ao inp) (D_alpha s) \<and>
    is_mat (num_ao inp) (D_beta s) \<and> is_mat (num_ao inp) (D_total s) \<and>
    uhf_step lib inp s = Inr s' \<longrightarrow>
      E_elec s' =
        1 / 2 * (\<Sum>i<num_ao inp. \<Sum>j<num_ao inp.
                   D_total s ! i ! j * H_mat inp ! i ! j +
                   D_alpha s ! i ! j * uhf_fock inp (D_alpha s) ! i ! j +
                   D_beta s ! i ! j * uhf_fock inp (D_beta s) ! i ! j)) \<and>
   (is_mat (num_ao rinp) (H_mat rinp) \<longrightarrow>
      F_mat (rhf_step lib rinp r) = rhf_fock rinp (D_mat r) \<and>
      D_mat (rhf_step lib rinp r) =
        form_D (num_ao rinp) (num_elec_alpha rinp)
          (snd (eigh lib (rhf_fock rinp (D_mat r)) (S_mat rinp))) \<and>
      E_scf_elec (rhf_step lib rinp r) =
        (\<Sum>i<num_ao rinp. \<Sum>j<num_ao rinp.
           D_mat (rhf_step lib rinp r) ! i ! j *
           (H_mat rinp ! i ! j + rhf_fock rinp (D_mat r) ! i ! j)))"
proof (intro conjI impI)
  assume a: "is_mat (num_ao inp) (H_mat inp) \<and> is_mat (num_ao inp) (D_alpha s) \<and>
    is_mat (num_ao inp) (D_beta s) \<and> is_mat (num_ao inp) (D_total s) \<and>
    uhf_step lib inp s = Inr s'"
  then have step: "uhf_step lib inp s = Inr s'" by simp
  from step have "E_elec s' = uhf_energy (H_mat inp) (D_total s) (D_alpha s)
      (uhf_fock inp (D_alpha s)) (D_beta s) (uhf_fock inp (D_beta s))"
    by (cases rule: uhf_step_cases)
  also have "\<dots> = 1 / 2 * (\<Sum>i<num_ao inp. \<Sum>j<num_ao inp.
                   D_total s ! i ! j * H_mat inp ! i ! j +
                   D_alpha s ! i ! j * uhf_fock inp (D_alpha s) ! i ! j +
                   D_beta s ! i ! j * uhf_fock inp (D_beta s) ! i ! j)"
    using a by (intro uhf_energy_entries) (simp_all add: is_mat_uhf_fock)
  finally show "E_elec s' = 1 / 2 * (\<Sum>i<num_ao inp. \<Sum>j<num_ao inp.
                   D_total s ! i ! j * H_mat inp ! i ! j +
                   D_alpha s ! i ! j * uhf_fock inp (D_alpha s) ! i ! j +
                   D_beta s ! i ! j * uhf_fock inp (D_beta s) ! i ! j)" .
next
  show "F_mat (rhf_step lib rinp r) = rhf_fock rinp (D_mat r)"
    by (simp add: rhf_step_def Let_def)
next
  show "D_mat (rhf_step lib rinp r) =
        form_D (num_ao rinp) (num_elec_alpha rinp)
          (snd (eigh lib (rhf_fock rinp (D_mat r)) (S_mat rinp)))"
    by (simp add: rhf_step_def Let_def)
next
  assume H: "is_mat (num_ao rinp) (H_mat rinp)"
  have "E_scf_elec (rhf_step lib rinp r) =
        rhf_energy (H_mat rinp) (D_mat (rhf_step lib rinp r)) (rhf_fock rinp (D_mat r))"
    by (simp add: rhf_step_def Let_def)
  also have "\<dots> = (\<Sum>i<num_ao rinp. \<Sum>j<num_ao rinp.
           D_mat (rhf_step lib rinp r) ! i ! j *
           (H_mat rinp ! i ! j + rhf_fock rinp (D_mat r) ! i ! j))"
    using H by (intro rhf_energy_entries) (simp_all add: is_mat_rhf_fock rhf_step_def Let_def is_mat_form_D)
  finally show "E_scf_elec (rhf_step lib rinp r) =
        (\<Sum>i<num_ao rinp. \<Sum>j<num_ao rinp.
           D_mat (rhf_step lib rinp r) ! i ! j *
           (H_mat rinp ! i ! j + rhf_fock rinp (D_mat r) ! i ! j))" .
qed

theorem electronic_energy_formulas_witness:
  "is_mat (num_ao (uhf_1x1 1 1 (- 1) 1 100)) (H_mat (uhf_1x1 1 1 (- 1) 1 100)) \<and>
   is_mat (num_ao (uhf_1x1 1 1 (- 1) 1 100)) (D_alpha (uhf_init lib_1x1 (uhf_1x1 1 1 (- 1) 1 100))) \<and>
   is_mat (num_ao (uhf_1x1 1 1 (- 1) 1 100)) (D_beta (uhf_init lib_1x1 (uhf_1x1 1 1 (- 1) 1 100))) \<and>
   is_mat (num_ao (uhf_1x1 1 1 (- 1) 1 100)) (D_total (uhf_init lib_1x1 (uhf_1x1 1 1 (- 1) 1 100))) \<and>
   uhf_step lib_1x1 (uhf_1x1 1 1 (- 1) 1 100) (uhf_init lib_1x1 (uhf_1x1 1 1 (- 1) 1 100))
     = Inr uhf_1x1_state1 \<and>
   E_elec uhf_1x1_state1 = - 1 \<and>
   E_elec uhf_1x1_state1 =
     1 / 2 * (\<Sum>i<num_ao (uhf_1x1 1 1 (- 1) 1 100). \<Sum>j<num_ao (uhf_1x1 1 1 (- 1) 1 100).
        D_total (uhf_init lib_1x1 (uhf_1x1 1 1 (- 1) 1 100)) ! i ! j * H_mat (uhf_1x1 1 1 (- 1) 1 100) ! i ! j +
        D_alpha (uhf_init lib_1x1 (uhf_1x1 1 1 (- 1) 1 100)) ! i ! j *
          uhf_fock (uhf_1x1 1 1 (- 1) 1 100) (D_alpha (uhf_init lib_1x1 (uhf_1x1 1 1 (- 1) 1 100))) ! i ! j +
        D_beta (uhf_init lib_1x1 (uhf_1x1 1 1 (- 1) 1 100)) ! i ! j *
          uhf_fock (uhf_1x1 1 1 (- 1) 1 100) (D_beta (uhf_init lib_1x1 (uhf_1x1 1 1 (- 1) 1 100))) ! i ! j) \<and>
   is_mat (num_ao (rhf_1x1 1 (- 1) 1 100)) (H_mat (rhf_1x1 1 (- 1) 1 100)) \<and>
   E_scf_elec (rhf_step lib_1x1 (rhf_1x1 1 (- 1) 1 100) (rhf_init (rhf_1x1 1 (- 1) 1 100))) = - 2 \<and>
   E_scf_elec (rhf_step lib_1x1 (rhf_1x1 1 (- 1) 1 100) (rhf_init (rhf_1x1 1 (- 1) 1 100))) =
     (\<Sum>i<num_ao (rhf_1x1 1 (- 1) 1 100). \<Sum>j<num_ao (rhf_1x1 1 (- 1) 1 100).
        D_mat (rhf_step lib_1x1 (rhf_1x1 1 (- 1) 1 100) (rhf_init (rhf_1x1 1 (- 1) 1 100))) ! i ! j *
        (H_mat (rhf_1x1 1 (- 1) 1 100) ! i ! j +
         rhf_fock (rhf_1x1 1 (- 1) 1 100) (D_mat (rhf_init (rhf_1x1 1 (- 1) 1 100))) ! i ! j))"
proof -
  let ?inp = "uhf_1x1 1 1 (- 1) 1 100" and ?rinp = "rhf_1x1 1 (- 1) 1 100"
  have st: "uhf_step lib_1x1 ?inp (uhf_init lib_1x1 ?inp) = Inr uhf_1x1_state1"
    using uhf_1x1_first_iteration [of 100] by (simp add: uhf_1x1_state1_def)
  have sh: "is_mat (num_ao ?inp) (H_mat ?inp)"
    "is_mat (num_ao ?inp) (D_alpha (uhf_init lib_1x1 ?inp))"
    "is_mat (num_ao ?inp) (D_beta (uhf_init lib_1x1 ?inp))"
    "is_mat (num_ao ?inp) (D_total (uhf_init lib_1x1 ?inp))"
    unfolding uhf_1x1_init by (simp_all add: uhf_1x1_def is_mat_def)
  have rh: "is_mat (num_ao ?rinp) (H_mat ?rinp)"
    by (simp add: rhf_1x1_def is_mat_def)
  have v: "E_elec uhf_1x1_state1 = - 1"
    "E_scf_elec (rhf_step lib_1x1 ?rinp (rhf_init ?rinp)) = - 2"
    using rhf_1x1_first_iteration [of 100] by (simp_all add: uhf_1x1_state1_def)
  note T = electronic_energy_formulas
    [of ?inp "uhf_init lib_1x1 ?inp" lib_1x1 uhf_1x1_state1 ?rinp "rhf_init ?rinp"]
  from T sh st have a: "E_elec uhf_1x1_state1 =
     1 / 2 * (\<Sum>i<num_ao ?inp. \<Sum>j<num_ao ?inp.
        D_total (uhf_init lib_1x1 ?inp) ! i ! j * H_mat ?inp ! i ! j +
        D_alpha (uhf_init lib_1x1 ?inp) ! i ! j *
          uhf_fock ?inp (D_alpha (uhf_init lib_1x1 ?inp)) ! i ! j +
        D_beta (uhf_init lib_1x1 ?inp) ! i ! j *
          uhf_fock ?inp (D_beta (uhf_init lib_1x1 ?inp)) ! i ! j)"
    by blast
  from T rh have b: "E_scf_elec (rhf_step lib_1x1 ?rinp (rhf_init ?rinp)) =
     (\<Sum>i<num_ao ?rinp. \<Sum>j<num_ao ?rinp.
        D_mat (rhf_step lib_1x1 ?rinp (rhf_init ?rinp)) ! i ! j *
        (H_mat ?rinp ! i ! j + rhf_fock ?rinp (D_mat (rhf_init ?rinp)) ! i ! j))"
    by blast
  from sh st v(1) a rh v(2) b show ?thesis
    by (intro conjI)
qed

text \<open>
  The first restricted iteration of the one-function system starts from the zero
  density: the sum with the density the Fock matrix was built from is \<open>0\<close>, the energy
  the loop stores is \<open>-2\<close>.
\<close>

theorem restricted_energy_after_density_update_counterexample:
  "D_mat (rhf_init (rhf_1x1 1 (- 1) 1 100)) = [[0]] \<and>
   rhf_fock (rhf_1x1 1 (- 1) 1 100) (D_mat (rhf_init (rhf_1x1 1 (- 1) 1 100))) = [[- 1]] \<and>
   rhf_energy (H_mat (rhf_1x1 1 (- 1) 1 100)) (D_mat (rhf_init (rhf_1x1 1 (- 1) 1 100)))
     (rhf_fock (rhf_1x1 1 (- 1) 1 100) (D_mat (rhf_init (rhf_1x1 1 (- 1) 1 100)))) = 0 \<and>
   D_mat (rhf_step lib_1x1 (rhf_1x1 1 (- 1) 1 100) (rhf_init (rhf_1x1 1 (- 1) 1 100))) = [[1]] \<and>
   E_scf_elec (rhf_step lib_1x1 (rhf_1x1 1 (- 1) 1 100) (rhf_init (rhf_1x1 1 (- 1) 1 100))) = - 2 \<and>
   E_scf_elec (rhf_step lib_1x1 (rhf_1x1 1 (- 1) 1 100) (rhf_init (rhf_1x1 1 (- 1) 1 100))) \<noteq>
     rhf_energy (H_mat (rhf_1x1 1 (- 1) 1 100)) (D_mat (rhf_init (rhf_1x1 1 (- 1) 1 100)))
       (rhf_fock (rhf_1x1 1 (- 1) 1 100) (D_mat (rhf_init (rhf_1x1 1 (- 1) 1 100))))"
proof -
  have d0: "D_mat (rhf_init (rhf_1x1 1 (- 1) 1 100)) = [[0]]"
    using rhf_1x1_init [of 100] by simp
  have f0: "rhf_fock (rhf_1x1 1 (- 1) 1 100) [[0]] = [[- 1]]"
    by (simp add: rhf_fock_def rhf_1x1_def form_G_def madd_def)
  have e0: "rhf_energy (H_mat (rhf_1x1 1 (- 1) 1 100)) [[0]] [[- 1]] = 0"
    by (simp add: rhf_energy_def rhf_1x1_def np_sum_def multiply_def madd_def)
  have s1: "D_mat (rhf_step lib_1x1 (rhf_1x1 1 (- 1) 1 100) (rhf_init (rhf_1x1 1 (- 1) 1 100))) = [[1]]"
    "E_scf_elec (rhf_step lib_1x1 (rhf_1x1 1 (- 1) 1 100) (rhf_init (rhf_1x1 1 (- 1) 1 100))) = - 2"
    using rhf_1x1_first_iteration [of 100] by simp_all
  from d0 f0 e0 s1 show ?thesis by (simp only:) simp
qed

subsection \<open>The starting densities\<close>

text \<open>
  Claim C6, amended. Before its first iteration the unrestricted driver diagonalises
  \<open>H\<close> against \<open>S\<close> and builds each channel's density from the first \<open>num_elec\<close> columns
  of that eigensolution: \<open>D\<^sub>i\<^sub>j = \<Sum>\<^sub>k\<^sub><\<^sub>N C\<^sub>i\<^sub>k C\<^sub>j\<^sub>k\<close>. The restricted driver starts
  from the zero matrix; its first iteration then builds \<open>F = H\<close>, diagonalises \<open>H\<close>
  against \<open>S\<close> and produces the core-guess density as the density after iteration one.
\<close>

theorem initial_densities:
  "iteration_num (uhf_init lib inp) = 0 \<and>
   D_alpha (uhf_init lib inp) =
     form_D (num_ao inp) (num_elec_alpha inp) (snd (eigh lib (H_mat inp) (S_mat inp))) \<and>
   D_beta (uhf_init lib inp) =
     form_D (num_ao inp) (num_elec_beta inp) (snd (eigh lib (H_mat inp) (S_mat inp))) \<and>
   D_total (uhf_init lib inp) = madd (D_alpha (uhf_init lib inp)) (D_beta (uhf_init lib inp)) \<and>
   (\<forall>i<num_ao inp. \<forall>j<num_ao inp.
      D_alpha (uhf_init lib inp) ! i ! j =
        (\<Sum>k<num_elec_alpha inp. snd (eigh lib (H_mat inp) (S_mat inp)) ! i ! k *
                                 snd (eigh lib (H_mat inp) (S_mat inp)) ! j ! k) \<and>
      D_beta (uhf_init lib inp) ! i ! j =
        (\<Sum>k<num_elec_beta inp. snd (eigh lib (H_mat inp) (S_mat inp)) ! i ! k *
                                snd (eigh lib (H_mat inp) (S_mat inp)) ! j ! k)) \<and>
   iteration_num (rhf_init rinp) = 0 \<and>
   D_mat (rhf_init rinp) = replicate (num_ao rinp) (replicate (num_ao rinp) 0) \<and>
   (is_mat (num_ao rinp) (H_mat rinp) \<longrightarrow>
      F_mat (rhf_step lib rinp (rhf_init rinp)) = H_mat rinp \<and>
      D_mat (rhf_step lib rinp (rhf_init rinp)) =
        form_D (num_ao rinp) (num_elec_alpha rinp) (snd (eigh lib (H_mat rinp) (S_mat rinp))))"
proof (intro conjI impI allI)
  show "iteration_num (uhf_init lib inp) = 0" by (simp add: uhf_init_def Let_def)
  show Da: "D_alpha (uhf_init lib inp) =
     form_D (num_ao inp) (num_elec_alpha inp) (snd (eigh lib (H_mat inp) (S_mat inp)))"
    by (simp add: uhf_init_def Let_def)
  show Db: "D_beta (uhf_init lib inp) =
     form_D (num_ao inp) (num_elec_beta inp) (snd (eigh lib (H_mat inp) (S_mat inp)))"
    by (simp add: uhf_init_def Let_def)
  show "D_total (uhf_init lib inp) = madd (D_alpha (uhf_init lib inp)) (D_beta (uhf_init lib inp))"
    by (simp add: uhf_init_def Let_def)
  show "iteration_num (rhf_init rinp) = 0" by (simp add: rhf_init_def)
  show D0: "D_mat (rhf_init rinp) = replicate (num_ao rinp) (replicate (num_ao rinp) 0)"
    by (simp add: rhf_init_def)
  {
    fix i j assume "i < num_ao inp" "j < num_ao inp"
    then show "D_alpha (uhf_init lib inp) ! i ! j =
        (\<Sum>k<num_elec_alpha inp. snd (eigh lib (H_mat inp) (S_mat inp)) ! i ! k *
                                 snd (eigh lib (H_mat inp) (S_mat inp)) ! j ! k)"
      and "D_beta (uhf_init lib inp) ! i ! j =
        (\<Sum>k<num_elec_beta inp. snd (eigh lib (H_mat inp) (S_mat inp)) ! i ! k *
                                snd (eigh lib (H_mat inp) (S_mat inp)) ! j ! k)"
      by (simp_all add: Da Db form_D_nth)
  }
  {
    assume H: "is_mat (num_ao rinp) (H_mat rinp)"
    then show F: "F_mat (rhf_step lib rinp (rhf_init rinp)) = H_mat rinp"
      by (simp add: rhf_step_def Let_def D0 rhf_fock_zero)
    from H show "D_mat (rhf_step lib rinp (rhf_init rinp)) =
        form_D (num_ao rinp) (num_elec_alpha rinp) (snd (eigh lib (H_mat rinp) (S_mat rinp)))"
      by (simp add: rhf_step_def Let_def D0 rhf_fock_zero)
  }
qed

theorem initial_densities_witness:
  "(0::nat) < num_ao (uhf_1x1 1 1 (- 1) 1 100) \<and>
   D_alpha (uhf_init lib_1x1 (uhf_1x1 1 1 (- 1) 1 100)) = [[1]] \<and>
   D_alpha (uhf_init lib_1x1 (uhf_1x1 1 1 (- 1) 1 100)) ! 0 ! 0 =
     (\<Sum>k<num_elec_alpha (uhf_1x1 1 1 (- 1) 1 100).
        snd (eigh lib_1x1 (H_mat (uhf_1x1 1 1 (- 1) 1 100)) (S_mat (uhf_1x1 1 1 (- 1) 1 100))) ! 0 ! k *
        snd (eigh lib_1x1 (H_mat (uhf_1x1 1 1 (- 1) 1 100)) (S_mat (uhf_1x1 1 1 (- 1) 1 100))) ! 0 ! k) \<and>
   D_beta (uhf_init lib_1x1 (uhf_1x1 1 1 (- 1) 1 100)) ! 0 ! 0 =
     (\<Sum>k<num_elec_beta (uhf_1x1 1 1 (- 1) 1 100).
        snd (eigh lib_1x1 (H_mat (uhf_1x1 1 1 (- 1) 1 100)) (S_mat (uhf_1x1 1 1 (- 1) 1 100))) ! 0 ! k *
        snd (eigh lib_1x1 (H_mat (uhf_1x1 1 1 (- 1) 1 100)) (S_mat (uhf_1x1 1 1 (- 1) 1 100))) ! 0 ! k) \<and>
   is_mat (num_ao (rhf_1x1 1 (- 1) 1 100)) (H_mat (rhf_1x1 1 (- 1) 1 100)) \<and>
   D_mat (rhf_init (rhf_1x1 1 (- 1) 1 100)) = [[0]] \<and>
   F_mat (rhf_step lib_1x1 (rhf_1x1 1 (- 1) 1 100) (rhf_init (rhf_1x1 1 (- 1) 1 100))) =
     H_mat (rhf_1x1 1 (- 1) 1 100) \<and>
   D_mat (rhf_step lib_1x1 (rhf_1x1 1 (- 1) 1 100) (rhf_init (rhf_1x1 1 (- 1) 1 100))) =
     form_D (num_ao (rhf_1x1 1 (- 1) 1 100)) (num_elec_alpha (rhf_1x1 1 (- 1) 1 100))
       (snd (eigh lib_1x1 (H_mat (rhf_1x1 1 (- 1) 1 100)) (S_mat (rhf_1x1 1 (- 1) 1 100)))) \<and>
   D_mat (rhf_step lib_1x1 (rhf_1x1 1 (- 1) 1 100) (rhf_init (rhf_1x1 1 (- 1) 1 100))) = [[1]]"
proof -
  let ?inp = "uhf_1x1 1 1 (- 1) 1 100" and ?rinp = "rhf_1x1 1 (- 1) 1 100"
  have n: "(0::nat) < num_ao ?inp" by (simp add: uhf_1x1_def)
  have d: "D_alpha (uhf_init lib_1x1 ?inp) = [[1]]"
    using uhf_1x1_init [of 100] by simp
  have rh: "is_mat (num_ao ?rinp) (H_mat ?rinp)"
    by (simp add: rhf_1x1_def is_mat_def)
  have r0: "D_mat (rhf_init ?rinp) = [[0]]"
    using rhf_1x1_init [of 100] by simp
  have r1: "D_mat (rhf_step lib_1x1 ?rinp (rhf_init ?rinp)) = [[1]]"
    using rhf_1x1_first_iteration [of 100] by simp
  note T = initial_densities [of lib_1x1 ?inp ?rinp]
  from T n have a: "D_alpha (uhf_init lib_1x1 ?inp) ! 0 ! 0 =
     (\<Sum>k<num_elec_alpha ?inp.
        snd (eigh lib_1x1 (H_mat ?inp) (S_mat ?inp)) ! 0 ! k *
        snd (eigh lib_1x1 (H_mat ?inp) (S_mat ?inp)) ! 0 ! k)"
    "D_beta (uhf_init lib_1x1 ?inp) ! 0 ! 0 =
     (\<Sum>k<num_elec_beta ?inp.
        snd (eigh lib_1x1 (H_mat ?inp) (S_mat ?inp)) ! 0 ! k *
        snd (eigh lib_1x1 (H_mat ?inp) (S_mat ?inp)) ! 0 ! k)"
    by blast+
  from T rh have b: "F_mat (rhf_step lib_1x1 ?rinp (rhf_init ?rinp)) = H_mat ?rinp"
    "D_mat (rhf_step lib_1x1 ?rinp (rhf_init ?rinp)) =
     form_D (num_ao ?rinp) (num_elec_alpha ?rinp) (snd (eigh lib_1x1 (H_mat ?rinp) (S_mat ?rinp)))"
    by blast+
  from n d a rh r0 b r1 show ?thesis by (intro conjI)
qed

text \<open>
  The restricted seed of the one-function system is \<open>[[0]]\<close>, the core-guess density
  is \<open>[[1]]\<close>.
\<close>

theorem restricted_seed_is_zero_counterexample:
  "D_mat (rhf_init (rhf_1x1 1 (- 1) 1 100)) = [[0]] \<and>
   form_D (num_ao (rhf_1x1 1 (- 1) 1 100)) (num_elec_alpha (rhf_1x1 1 (- 1) 1 100))
     (snd (eigh lib_1x1 (H_mat (rhf_1x1 1 (- 1) 1 100)) (S_mat (rhf_1x1 1 (- 1) 1 100)))) = [[1]] \<and>
   D_mat (rhf_init (rhf_1x1 1 (- 1) 1 100)) \<noteq>
     form_D (num_ao (rhf_1x1 1 (- 1) 1 100)) (num_elec_alpha (rhf_1x1 1 (- 1) 1 100))
       (snd (eigh lib_1x1 (H_mat (rhf_1x1 1 (- 1) 1 100)) (S_mat (rhf_1x1 1 (- 1) 1 100))))"
proof -
  have "D_mat (rhf_init (rhf_1x1 1 (- 1) 1 100)) = [[0]]"
    using rhf_1x1_init [of 100] by simp
  moreover have "form_D (num_ao (rhf_1x1 1 (- 1) 1 100)) (num_elec_alpha (rhf_1x1 1 (- 1) 1 100))
     (snd (eigh lib_1x1 (H_mat (rhf_1x1 1 (- 1) 1 100)) (S_mat (rhf_1x1 1 (- 1) 1 100)))) = [[1]]"
    by (simp add: rhf_1x1_def lib_1x1_def eigh_1x1_def form_D_def)
  ultimately show ?thesis by (simp only:) simp
qed

subsection \<open>The closed-shell case of the unrestricted loop\<close>




end
